theory Spec2Isabelle
  imports Main "HOL-Library.AList" "HOL-Library.Sublist"
begin

section \<open>JavaScript strings\<close>

text \<open>
  A JavaScript string is modelled as a \<^typ>\<open>string\<close> holding its UTF-8 bytes. The
  separators the importer looks for (\<open>@\<close>, \<open>/\<close>, \<open>:\<close>, \<open>^\<close>, \<open>~\<close>) are ASCII, so
  splitting and searching on bytes agrees with the source's splitting on UTF-16 units.
  A value that may be \<open>undefined\<close> is a \<^typ>\<open>string option\<close>.
\<close>

text \<open>\<open>s.split(c)\<close> for a one-character separator: never the empty list.\<close>

fun split :: "char \<Rightarrow> string \<Rightarrow> string list" where
  "split c [] = [ [] ]"
| "split c (x # xs) =
     (if x = c then [] # split c xs
      else (case split c xs of [] \<Rightarrow> [ [x] ] | y # ys \<Rightarrow> (x # y) # ys))"

text \<open>\<open>parts.join(sep)\<close>.\<close>

fun join :: "string \<Rightarrow> string list \<Rightarrow> string" where
  "join sep [] = []"
| "join sep [x] = x"
| "join sep (x # y # ys) = x @ sep @ join sep (y # ys)"

text \<open>\<open>s.startsWith(p)\<close>.\<close>

definition startsWith :: "string \<Rightarrow> string \<Rightarrow> bool" where
  "startsWith s p = (take (length p) s = p)"

text \<open>\<open>s.indexOf(c)\<close>: the index of the first occurrence, \<open>-1\<close> when there is none.\<close>

fun indexOf :: "string \<Rightarrow> char \<Rightarrow> int" where
  "indexOf [] c = -1"
| "indexOf (x # xs) c =
     (if x = c then 0 else (let i = indexOf xs c in if i < 0 then -1 else i + 1))"

text \<open>\<open>s.substring(a)\<close> and \<open>s.substring(0, b)\<close>: negative indices count as 0.\<close>

definition substring_from :: "string \<Rightarrow> int \<Rightarrow> string" where
  "substring_from s a = drop (nat a) s"

definition substring_to :: "string \<Rightarrow> int \<Rightarrow> string" where
  "substring_to s b = take (nat b) s"

text \<open>\<open>s.replace(pat, rep)\<close> with a string pattern: the first occurrence only.\<close>

fun replace_first :: "string \<Rightarrow> string \<Rightarrow> string \<Rightarrow> string" where
  "replace_first pat rep [] = (if pat = [] then rep else [])"
| "replace_first pat rep (x # xs) =
     (if startsWith (x # xs) pat then rep @ drop (length pat) (x # xs)
      else x # replace_first pat rep xs)"

text \<open>Truthiness of a string that may be undefined: \<open>undefined\<close> and \<open>''\<close> are falsy.\<close>

fun truthy :: "string option \<Rightarrow> bool" where
  "truthy None = False"
| "truthy (Some s) = (s \<noteq> [])"

text \<open>A value interpolated into a template literal.\<close>

fun interp :: "string option \<Rightarrow> string" where
  "interp None = ''undefined''"
| "interp (Some s) = s"

text \<open>A status code interpolated into a template literal: its decimal digits.\<close>

fun decimal :: "nat \<Rightarrow> string" where
  "decimal n =
     (if n < 10 then [''0123456789'' ! n]
      else decimal (n div 10) @ [''0123456789'' ! (n mod 10)])"

declare decimal.simps [simp del]

section \<open>Specifier parser (importer.js, parsePackageString)\<close>

record package_info =
  name :: string
  version :: string
  source :: string
  originalName :: string
  alias' :: "string option"

definition parsePackageString :: "string \<Rightarrow> package_info" where
  "parsePackageString input =
     (let result = \<lparr> name = [], version = ''latest'', source = ''npm'',
                      originalName = input, alias' = None \<rparr>;
          parts = split CHR ''@'' input;
          alias0 = hd parts;
          rest = tl parts;
          pkgSpec = join ''@'' rest
      in if pkgSpec = [] then result \<lparr> name := alias0 \<rparr>
         else
           let result =
             (if startsWith pkgSpec ''npm:'' \<or> startsWith pkgSpec ''github:''
                 \<or> startsWith pkgSpec ''yarn:''
              then result \<lparr> name := substring_from pkgSpec (indexOf pkgSpec CHR '':'' + 1),
                            source := substring_to pkgSpec (indexOf pkgSpec CHR '':''),
                            alias' := Some alias0 \<rparr>
              else if startsWith alias0 ''@''
              then result \<lparr> name := alias0 @ ''@'' @ pkgSpec \<rparr>
              else result \<lparr> name := alias0, version := pkgSpec \<rparr>)
           in if version result \<noteq> ''latest''
              then result \<lparr> version := filter (\<lambda>c. c \<noteq> CHR ''^'' \<and> c \<noteq> CHR ''~'') (version result) \<rparr>
              else result)"

text \<open>\<open>alias || name.split('/').pop()\<close>, the logical module name of a parsed specifier.\<close>

definition moduleNameOf :: "package_info \<Rightarrow> string" where
  "moduleNameOf parsed =
     (if truthy (alias' parsed) then the (alias' parsed)
      else last (split CHR ''/'' (name parsed)))"

section \<open>Registry URL builder (network.js)\<close>

text \<open>
  \<open>encodeURIComponent\<close>: the unreserved characters stay, every other byte of the UTF-8
  encoding becomes \<open>%XX\<close> with upper-case hexadecimal digits. (A lone surrogate, on which
  the JavaScript function throws, has no UTF-8 encoding and is not a value of the model.)
\<close>

definition uriUnreserved :: "char \<Rightarrow> bool" where
  "uriUnreserved c =
     (c \<in> set ''ABCDEFGHIJKLMNOPQRSTUVWXYZabcdefghijklmnopqrstuvwxyz0123456789-_.!~*()''
      \<or> c = CHR 0x27)"

definition hexDigit :: "nat \<Rightarrow> char" where
  "hexDigit n = ''0123456789ABCDEF'' ! n"

definition encodeChar :: "char \<Rightarrow> string" where
  "encodeChar c =
     (if uriUnreserved c then [c]
      else [CHR ''%'', hexDigit (of_char c div 16), hexDigit (of_char c mod 16)])"

definition encodeURIComponent :: "string \<Rightarrow> string" where
  "encodeURIComponent s = concat (map encodeChar s)"

definition encodedName :: "string \<Rightarrow> string" where
  "encodedName nm =
     (if startsWith nm ''@'' then ''@'' @ encodeURIComponent (drop 1 nm)
      else encodeURIComponent nm)"

definition getNpmPackageUrl :: "string \<Rightarrow> string option \<Rightarrow> string" where
  "getNpmPackageUrl nm ver =
     ''https://unpkg.com/'' @ encodedName nm
       @ (if truthy ver then ''@'' @ interp ver else []) @ ''/package.json''"

definition getNpmFileUrl :: "string \<Rightarrow> string option \<Rightarrow> string \<Rightarrow> string" where
  "getNpmFileUrl nm ver filePath =
     ''https://unpkg.com/'' @ encodedName nm
       @ (if truthy ver then ''@'' @ interp ver else []) @ ''/'' @ filePath"

text \<open>
  \<open>name.split('/')[1]\<close> is \<open>undefined\<close> when a scoped name has no \<open>/\<close>; the template
  literal then prints \<open>undefined\<close>.
\<close>

definition registryPath :: "string \<Rightarrow> string" where
  "registryPath nm =
     (let scope = (if startsWith nm ''@'' then hd (split CHR ''/'' nm) else [])
      in if scope \<noteq> []
         then scope @ ''/'' @ (case tl (split CHR ''/'' nm) of [] \<Rightarrow> ''undefined'' | p # _ \<Rightarrow> p)
         else nm)"

definition getNpmRegistryUrl :: "string \<Rightarrow> string option \<Rightarrow> string" where
  "getNpmRegistryUrl nm ver =
     ''https://registry.npmjs.org/'' @ registryPath nm @ ''/''
       @ (if truthy ver then interp ver else ''latest'')"

text \<open>\<open>yarnRegistry\<close> is \<open>process.env.YARN_REGISTRY\<close>, a parameter of the model.\<close>

definition getYarnPackageUrl :: "string option \<Rightarrow> string \<Rightarrow> string option \<Rightarrow> string" where
  "getYarnPackageUrl yarnRegistryEnv nm ver =
     (let yarnRegistry =
            (if truthy yarnRegistryEnv then interp yarnRegistryEnv
             else ''https://registry.yarnpkg.com'')
      in yarnRegistry @ ''/'' @ registryPath nm
           @ (if truthy ver then ''/'' @ interp ver else ''/latest''))"

definition getYarnFileUrl :: "string \<Rightarrow> string option \<Rightarrow> string \<Rightarrow> string" where
  "getYarnFileUrl nm ver filePath = getNpmFileUrl nm ver filePath"

section \<open>Transport client (network.js)\<close>

text \<open>
  One attempt of \<open>https.get\<close> has one of three outcomes: a response with a status code,
  a status message and a body (the \<open>data\<close> chunks concatenated at \<open>end\<close>), the
  \<open>timeout\<close> event, or the \<open>error\<close> event with the message of the error.
\<close>

datatype response = Http nat string string | Timeout | SocketError string

text \<open>
  The errors the two modules throw: \<open>NetworkError(message, statusCode, url)\<close> and a
  plain \<open>Error(message)\<close>.
\<close>

datatype js_error = NetworkError string nat string | Error string

fun message :: "js_error \<Rightarrow> string" where
  "message (NetworkError m _ _) = m"
| "message (Error m) = m"

record options =
  retries :: nat
  timeout :: nat
  initialDelay :: nat
  maxDelay :: nat
  backoffFactor :: nat

definition INITIAL_RETRY_DELAY :: nat where "INITIAL_RETRY_DELAY = 1000"
definition MAX_RETRY_DELAY :: nat where "MAX_RETRY_DELAY = 10000"
definition BACKOFF_FACTOR :: nat where "BACKOFF_FACTOR = 2"

definition default_options :: options where
  "default_options =
     \<lparr> retries = 3, timeout = 10000, initialDelay = INITIAL_RETRY_DELAY,
       maxDelay = MAX_RETRY_DELAY, backoffFactor = BACKOFF_FACTOR \<rparr>"

text \<open>
  The network is a parameter: \<open>net url k\<close> is the outcome of a request for \<open>url\<close> issued
  when \<open>k\<close> requests have been issued before it, so that the same URL may answer
  differently over time. The state of the transport is the list of the URLs requested so
  far, one entry per attempt, and the sum of the delays handed to \<open>setTimeout\<close>.
\<close>

type_synonym network = "string \<Rightarrow> nat \<Rightarrow> response"

record net_state =
  requests :: "string list"
  waited :: nat

text \<open>The inner function \<open>attempt(attemptsLeft, delay)\<close> of \<open>fetchWithRetry\<close>.\<close>

fun attempt ::
  "network \<Rightarrow> options \<Rightarrow> string \<Rightarrow> nat \<Rightarrow> nat \<Rightarrow> 'a net_state_scheme
     \<Rightarrow> (js_error + string) \<times> 'a net_state_scheme" where
  "attempt net opts url attemptsLeft delay s =
     (let res = net url (length (requests s));
          s1 = s \<lparr> requests := requests s @ [url] \<rparr>;
          nextDelay = min (delay * backoffFactor opts) (maxDelay opts)
      in case res of
           Http statusCode statusMessage body \<Rightarrow>
             if statusCode \<ge> 400 then
               if attemptsLeft > 1
               then attempt net opts url (attemptsLeft - 1) nextDelay
                      (s1 \<lparr> waited := waited s1 + delay \<rparr>)
               else (Inl (NetworkError
                            (''HTTP '' @ decimal statusCode @ '' - '' @ statusMessage)
                            statusCode url), s1)
             else (Inr body, s1)
         | Timeout \<Rightarrow>
             if attemptsLeft > 1
             then attempt net opts url (attemptsLeft - 1) nextDelay
                    (s1 \<lparr> waited := waited s1 + delay \<rparr>)
             else (Inl (NetworkError ''Request timeout'' 408 url), s1)
         | SocketError msg \<Rightarrow>
             if attemptsLeft > 1
             then attempt net opts url (attemptsLeft - 1) nextDelay
                    (s1 \<lparr> waited := waited s1 + delay \<rparr>)
             else (Inl (NetworkError msg 0 url), s1))"

declare attempt.simps [simp del]

definition fetchWithRetry ::
  "network \<Rightarrow> string \<Rightarrow> options \<Rightarrow> 'a net_state_scheme
     \<Rightarrow> (js_error + string) \<times> 'a net_state_scheme" where
  "fetchWithRetry net url opts s = attempt net opts url (retries opts) (initialDelay opts) s"

text \<open>
  Two notions for the statements about retries: an attempt fails when its outcome is a
  status of 400 or more, a timeout or a socket error, and \<open>networkErrorOf url r\<close> is the
  \<open>NetworkError\<close> the three handlers of \<open>attempt\<close> build for a failed outcome \<open>r\<close>.
\<close>

fun failed :: "response \<Rightarrow> bool" where
  "failed (Http statusCode statusMessage body) = (statusCode \<ge> 400)"
| "failed Timeout = True"
| "failed (SocketError msg) = True"

fun networkErrorOf :: "string \<Rightarrow> response \<Rightarrow> js_error" where
  "networkErrorOf url (Http statusCode statusMessage body) =
     NetworkError (''HTTP '' @ decimal statusCode @ '' - '' @ statusMessage) statusCode url"
| "networkErrorOf url Timeout = NetworkError ''Request timeout'' 408 url"
| "networkErrorOf url (SocketError msg) = NetworkError msg 0 url"

text \<open>
  \<open>fetchJson\<close>, with \<open>JSON.parse\<close> as a parameter: \<open>Inl m\<close> when it throws a
  \<open>SyntaxError\<close> with message \<open>m\<close>.
\<close>

definition fetchJson ::
  "network \<Rightarrow> (string \<Rightarrow> string + 'j) \<Rightarrow> string \<Rightarrow> options \<Rightarrow> 'a net_state_scheme
     \<Rightarrow> (js_error + 'j) \<times> 'a net_state_scheme" where
  "fetchJson net parse url opts s =
     (case fetchWithRetry net url opts s of
        (Inl err, s1) \<Rightarrow> (Inl err, s1)
      | (Inr data, s1) \<Rightarrow>
          (case parse data of
             Inl m \<Rightarrow> (Inl (Error (''Invalid JSON response from '' @ url @ '': '' @ m)), s1)
           | Inr j \<Rightarrow> (Inr j, s1)))"

section \<open>Importer state (importer.js)\<close>

text \<open>
  The fields of \<open>package.json\<close> the importer reads. \<open>pkg_dependencies\<close> holds
  \<open>Object.entries(pkgJson.dependencies)\<close> in the order JavaScript enumerates them.
\<close>

record manifest =
  pkg_module :: "string option"
  pkg_main :: "string option"
  pkg_version :: "string option"
  pkg_dependencies :: "(string \<times> string) list option"

text \<open>
  What the importer takes from its platform: the network, \<open>JSON.parse\<close> on a manifest,
  \<open>Module._compile\<close> (\<open>Some m\<close> when compiling the code at the path throws with message
  \<open>m\<close>), \<open>semver.validRange\<close> (whether it returns a range) and the environment variable
  \<open>YARN_REGISTRY\<close>.
\<close>

record env =
  net :: network
  JSON_parse :: "string \<Rightarrow> string + manifest"
  compile :: "string \<Rightarrow> string \<Rightarrow> string option"
  validRange :: "string \<Rightarrow> bool"
  YARN_REGISTRY :: "string option"

text \<open>
  The module-level state. A JavaScript \<open>Map\<close> is an association list in insertion order
  (\<open>set\<close> is \<^const>\<open>AList.update\<close>, which keeps the position of a key already present), a
  \<open>Set\<close> is a list without duplicates in insertion order. The keys of \<open>virtualModules\<close>
  and \<open>failedImports\<close> may be \<open>undefined\<close>: \<open>importFromGitHub\<close> takes its name from a
  destructuring that can miss. \<open>requireCache\<close> is \<open>require.cache\<close>, from a path to the
  module compiled there, represented by its source text. \<open>warnings\<close> are the messages
  importer.js hands to \<open>Logger.warn\<close>; the other log levels and the progress spinner only
  print and are left out.
\<close>

record importer_state = net_state +
  virtualModules :: "(string option \<times> string) list"
  packageMetadataCache :: "(string \<times> manifest) list"
  importingDependencies :: "string list"
  failedImports :: "(string option \<times> string) list"
  requireCache :: "(string \<times> string) list"
  warnings :: "string list"

definition initial_state :: importer_state where
  "initial_state =
     \<lparr> requests = [], waited = 0, virtualModules = [], packageMetadataCache = [],
       importingDependencies = [], failedImports = [], requireCache = [], warnings = [] \<rparr>"

definition MAX_CONCURRENT_DOWNLOADS :: nat where "MAX_CONCURRENT_DOWNLOADS = 5"

text \<open>\<open>map.has(k)\<close>, \<open>set.add(x)\<close>, \<open>Logger.warn(m)\<close>.\<close>

definition has :: "('k \<times> 'v) list \<Rightarrow> 'k \<Rightarrow> bool" where
  "has m k = (map_of m k \<noteq> None)"

definition add :: "'a \<Rightarrow> 'a list \<Rightarrow> 'a list" where
  "add x xs = (if x \<in> set xs then xs else xs @ [x])"

definition warn :: "string \<Rightarrow> importer_state \<Rightarrow> importer_state" where
  "warn m s = s \<lparr> warnings := warnings s @ [m] \<rparr>"

definition resolveMainFile :: "manifest \<Rightarrow> string" where
  "resolveMainFile pkgJson =
     (if truthy (pkg_module pkgJson) then interp (pkg_module pkgJson)
      else if truthy (pkg_main pkgJson) then interp (pkg_main pkgJson)
      else ''index.js'')"

section \<open>Module loader (importer.js, importModuleFiles)\<close>

definition importModuleFiles ::
  "env \<Rightarrow> string option \<Rightarrow> string \<Rightarrow> bool \<Rightarrow> importer_state
     \<Rightarrow> (js_error + unit) \<times> importer_state" where
  "importModuleFiles e nm urlOrContent isContent s =
     (case (if isContent then (Inr urlOrContent, s)
            else fetchWithRetry (net e) urlOrContent default_options s) of
        (Inl err, s1) \<Rightarrow> (Inl err, s1)
      | (Inr code, s1) \<Rightarrow>
          (let modulePath = ''/virtual_modules/'' @ interp nm @ ''.js''
           in case compile e code modulePath of
                Some m \<Rightarrow> (Inl (Error (''Failed to compile '' @ interp nm @ '': '' @ m)), s1)
              | None \<Rightarrow>
                  (Inr (), s1 \<lparr> virtualModules := AList.update nm modulePath (virtualModules s1),
                                requireCache := AList.update modulePath code (requireCache s1) \<rparr>)))"

text \<open>\<open>clearVirtualModules\<close>.\<close>

definition clearVirtualModules :: "importer_state \<Rightarrow> importer_state" where
  "clearVirtualModules s =
     s \<lparr> requireCache := foldl (\<lambda>rc (nm, path). AList.delete path rc)
                            (requireCache s) (virtualModules s),
         virtualModules := [],
         packageMetadataCache := [],
         failedImports := [] \<rparr>"

section \<open>Orchestrator (importer.js)\<close>

text \<open>
  The object an item of a chunk resolves to: \<open>{ success, name, error }\<close>, with \<open>error\<close>
  present on failure only.
\<close>

datatype outcome = Outcome (success: bool) (oname: string) (error: "string option")

text \<open>
  \<open>for (let i = 0; i < xs.length; i += MAX_CONCURRENT_DOWNLOADS) xs.slice(i, i + MAX_CONCURRENT_DOWNLOADS)\<close>:
  the successive slices of the list.
\<close>

function chunks :: "nat \<Rightarrow> 'a list \<Rightarrow> 'a list list" where
  "chunks n xs = (if n = 0 \<or> xs = [] then [] else take n xs # chunks n (drop n xs))"
  by pat_completeness auto
termination
  by (relation "measure (\<lambda>(n, xs). length xs)") auto

declare chunks.simps [simp del]

text \<open>
  \<open>await Promise.allSettled(chunk.map(f))\<close>. The items of a chunk are started in order and
  the model runs each to its end before the next starts: one of the schedules of the
  cooperative event loop. An item that does not return (\<open>None\<close>) keeps the whole call from
  returning. No item rejects, since each wraps its body in \<open>try\<close>/\<open>catch\<close>, so every
  settled result is \<open>fulfilled\<close> and is represented by its value.
\<close>

fun allSettled :: "('a \<Rightarrow> 's \<Rightarrow> ('r \<times> 's) option) \<Rightarrow> 'a list \<Rightarrow> 's \<Rightarrow> ('r list \<times> 's) option" where
  "allSettled f [] s = Some ([], s)"
| "allSettled f (x # xs) s =
     (case f x s of
        None \<Rightarrow> None
      | Some (r, s1) \<Rightarrow>
          (case allSettled f xs s1 of
             None \<Rightarrow> None
           | Some (rs, s2) \<Rightarrow> Some (r # rs, s2)))"

text \<open>
  The loop over the chunks: each chunk is settled, then \<open>after\<close> runs on its results,
  and the results of all chunks are collected in order.
\<close>

fun forChunks ::
  "('a \<Rightarrow> 's \<Rightarrow> ('r \<times> 's) option) \<Rightarrow> ('r list \<Rightarrow> 's \<Rightarrow> 's) \<Rightarrow> 'a list list \<Rightarrow> 's
     \<Rightarrow> ('r list \<times> 's) option" where
  "forChunks f after [] s = Some ([], s)"
| "forChunks f after (chunk # cs) s =
     (case allSettled f chunk s of
        None \<Rightarrow> None
      | Some (rs, s1) \<Rightarrow>
          (case forChunks f after cs (after rs s1) of
             None \<Rightarrow> None
           | Some (rs', s2) \<Rightarrow> Some (rs @ rs', s2)))"

text \<open>The manifest of a package: from the cache, else from the primary URL, else from
  the npm registry; a fetched manifest is cached.\<close>

definition fetchManifest ::
  "env \<Rightarrow> string \<Rightarrow> string \<Rightarrow> string \<Rightarrow> importer_state
     \<Rightarrow> (js_error + manifest) \<times> importer_state" where
  "fetchManifest e nm ver src s =
     (let cacheKey = nm @ ''@'' @ ver
      in case map_of (packageMetadataCache s) cacheKey of
           Some pkgJson \<Rightarrow> (Inr pkgJson, s)
         | None \<Rightarrow>
             (let packageUrl =
                    (if src = ''yarn'' then getYarnPackageUrl (YARN_REGISTRY e) nm (Some ver)
                     else getNpmPackageUrl nm (Some ver))
              in case fetchJson (net e) (JSON_parse e) packageUrl default_options s of
                   (Inr pkgJson, s1) \<Rightarrow>
                     (Inr pkgJson,
                      s1 \<lparr> packageMetadataCache :=
                             AList.update cacheKey pkgJson (packageMetadataCache s1) \<rparr>)
                 | (Inl err, s1) \<Rightarrow>
                     (let registryUrl = getNpmRegistryUrl nm (Some ver)
                      in case fetchJson (net e) (JSON_parse e) registryUrl default_options s1 of
                           (Inl err', s2) \<Rightarrow> (Inl err', s2)
                         | (Inr pkgJson, s2) \<Rightarrow>
                             (Inr pkgJson,
                              s2 \<lparr> packageMetadataCache :=
                                     AList.update cacheKey pkgJson
                                       (packageMetadataCache s2) \<rparr>))))"

text \<open>
  The function mapped over a chunk of dependencies; \<open>rec\<close> is the recursive call of
  \<open>importFromRegistry\<close>.
\<close>

definition importDependency ::
  "env \<Rightarrow> (string \<Rightarrow> string \<Rightarrow> importer_state \<Rightarrow> ((js_error + unit) \<times> importer_state) option)
     \<Rightarrow> string \<Rightarrow> string \<times> string \<Rightarrow> importer_state
     \<Rightarrow> (outcome \<times> importer_state) option" where
  "importDependency e rec src dep s =
     (case dep of (depName, depVersion) \<Rightarrow>
        (let resolvedVersion = (if validRange e depVersion then depVersion else ''latest'')
         in case rec (depName @ ''@'' @ resolvedVersion) src s of
              None \<Rightarrow> None
            | Some (Inr u, s1) \<Rightarrow> Some (Outcome True depName None, s1)
            | Some (Inl err, s1) \<Rightarrow>
                Some (Outcome False depName (Some (message err)),
                      (warn (''Failed to import dependency '' @ depName @ '': '' @ message err) s1)
                        \<lparr> failedImports :=
                            AList.update (Some depName) (message err) (failedImports s1) \<rparr>)))"

text \<open>The warnings after a successful import whose dependencies partly failed.\<close>

definition logFailedDependencies :: "string \<Rightarrow> outcome list \<Rightarrow> importer_state \<Rightarrow> importer_state" where
  "logFailedDependencies nm results s =
     (let failed = filter (\<lambda>r. \<not> success r) results
      in if length failed > 0
         then foldl (\<lambda>st f. warn (''  - '' @ (if oname f \<noteq> [] then oname f else ''Unknown'')
                                      @ '': '' @ interp (error f)) st)
                (warn (''Some dependencies of '' @ nm @ '' failed to import:'') s) failed
         else s)"

text \<open>The body of the \<open>try\<close> block of \<open>importFromRegistry\<close>.\<close>

definition registryBody ::
  "env \<Rightarrow> (string \<Rightarrow> string \<Rightarrow> importer_state \<Rightarrow> ((js_error + unit) \<times> importer_state) option)
     \<Rightarrow> string \<Rightarrow> string \<Rightarrow> string \<Rightarrow> importer_state
     \<Rightarrow> ((js_error + unit) \<times> importer_state) option" where
  "registryBody e rec nm ver src s =
     (case fetchManifest e nm ver src s of
        (Inl err, s1) \<Rightarrow> Some (Inl err, s1)
      | (Inr pkgJson, s1) \<Rightarrow>
          (let dependencies = (case pkg_dependencies pkgJson of None \<Rightarrow> [] | Some d \<Rightarrow> d)
           in case forChunks (importDependency e rec src) (\<lambda>rs st. st)
                     (chunks MAX_CONCURRENT_DOWNLOADS dependencies) s1 of
                None \<Rightarrow> None
              | Some (results, s2) \<Rightarrow>
                  (let mainFile = resolveMainFile pkgJson;
                       moduleUrl =
                         (if src = ''yarn'' then getYarnFileUrl nm (pkg_version pkgJson) mainFile
                          else getNpmFileUrl nm (pkg_version pkgJson) mainFile)
                   in case importModuleFiles e (Some nm) moduleUrl False s2 of
                        (Inl err, s3) \<Rightarrow> Some (Inl err, s3)
                      | (Inr u, s3) \<Rightarrow> Some (Inr (), logFailedDependencies nm results s3))))"

text \<open>
  \<open>importFromRegistry\<close>. The recursion through the dependencies need not end (a registry
  can serve an endless chain of packages), so the model takes fuel, one unit per nested
  call, and \<open>None\<close> says that the fuel did not suffice.
\<close>

fun importFromRegistry ::
  "env \<Rightarrow> nat \<Rightarrow> string \<Rightarrow> string \<Rightarrow> importer_state
     \<Rightarrow> ((js_error + unit) \<times> importer_state) option" where
  "importFromRegistry e 0 pkg src s = None"
| "importFromRegistry e (Suc fuel) pkg src s =
     (let parsed = parsePackageString pkg;
          nm = name parsed;
          ver = version parsed
      in if has (virtualModules s) (Some nm) then Some (Inr (), s)
         else if nm \<in> set (importingDependencies s)
         then Some (Inr (), warn (''Circular dependency detected for '' @ nm @ '', skipping'') s)
         else
           (case registryBody e (\<lambda>p src' st. importFromRegistry e fuel p src' st) nm ver src
                   (s \<lparr> importingDependencies := add nm (importingDependencies s) \<rparr>) of
              None \<Rightarrow> None
            | Some (Inl err, s1) \<Rightarrow>
                Some (Inl err,
                      s1 \<lparr> failedImports := AList.update (Some nm) (message err) (failedImports s1),
                           importingDependencies := removeAll nm (importingDependencies s1) \<rparr>)
            | Some (Inr u, s1) \<Rightarrow>
                Some (Inr (),
                      s1 \<lparr> importingDependencies := removeAll nm (importingDependencies s1) \<rparr>)))"

text \<open>The loop of \<open>importFromGitHub\<close> over the branches \<open>main\<close> and \<open>master\<close>.\<close>

fun tryBranches ::
  "env \<Rightarrow> string \<Rightarrow> string option \<Rightarrow> string list \<Rightarrow> js_error option \<Rightarrow> importer_state
     \<Rightarrow> string option \<times> js_error option \<times> importer_state" where
  "tryBranches e owner nm [] err s = (None, err, s)"
| "tryBranches e owner nm (branch # bs) err s =
     (let url = ''https://raw.githubusercontent.com/'' @ owner @ ''/'' @ interp nm @ ''/''
                  @ branch @ ''/package.json''
      in case fetchJson (net e) (JSON_parse e) url default_options s of
           (Inl err', s1) \<Rightarrow> tryBranches e owner nm bs (Some err') s1
         | (Inr pkgJson, s1) \<Rightarrow>
             (let mainFile = resolveMainFile pkgJson;
                  moduleUrl = ''https://raw.githubusercontent.com/'' @ owner @ ''/'' @ interp nm
                                @ ''/'' @ branch @ ''/'' @ mainFile
              in case fetchWithRetry (net e) moduleUrl default_options s1 of
                   (Inl err', s2) \<Rightarrow> tryBranches e owner nm bs (Some err') s2
                 | (Inr content, s2) \<Rightarrow> (Some content, err, s2)))"

definition importFromGitHub ::
  "env \<Rightarrow> string \<Rightarrow> importer_state \<Rightarrow> (js_error + unit) \<times> importer_state" where
  "importFromGitHub e repo s =
     (let parts = split CHR ''/'' (replace_first ''github:'' [] repo);
          owner = hd parts;
          nm = (case tl parts of [] \<Rightarrow> None | n # _ \<Rightarrow> Some n)
      in if has (virtualModules s) nm then (Inr (), s)
         else
           (case tryBranches e owner nm [''main'', ''master''] None s of
              (content, err, s1) \<Rightarrow>
                (case (if \<not> truthy content
                       then (Inl (case err of Some x \<Rightarrow> x
                                  | None \<Rightarrow> Error ''Failed to fetch repository content''), s1)
                       else importModuleFiles e nm (interp content) True s1) of
                   (Inl x, s2) \<Rightarrow>
                     (Inl x, s2 \<lparr> failedImports := AList.update nm (message x) (failedImports s2) \<rparr>)
                 | (Inr u, s2) \<Rightarrow> (Inr (), s2))))"

text \<open>
  The function \<open>importModules\<close> maps over a chunk. \<open>results\<close>, the object the batch
  returns, is threaded with the state: an import that returns assigns
  \<open>results[moduleName] = undefined\<close>, so the object is represented by the list of its keys.
\<close>

definition importOne ::
  "env \<Rightarrow> nat \<Rightarrow> string \<Rightarrow> string list \<times> importer_state
     \<Rightarrow> (outcome \<times> string list \<times> importer_state) option" where
  "importOne e fuel mod' rs =
     (case rs of (results, s) \<Rightarrow>
        (let parsed = parsePackageString mod';
             moduleName = moduleNameOf parsed
         in case (if source parsed = ''npm'' \<or> source parsed = ''yarn''
                  then importFromRegistry e fuel mod' (source parsed) s
                  else if source parsed = ''github''
                  then Some (importFromGitHub e mod' s)
                  else importFromRegistry e fuel mod' ''npm'' s) of
              None \<Rightarrow> None
            | Some (Inr u, s1) \<Rightarrow> Some (Outcome True moduleName None, add moduleName results, s1)
            | Some (Inl err, s1) \<Rightarrow> Some (Outcome False mod' (Some (message err)), results, s1)))"

text \<open>The warnings after a chunk of the batch has settled.\<close>

definition logChunkFailures ::
  "outcome list \<Rightarrow> string list \<times> importer_state \<Rightarrow> string list \<times> importer_state" where
  "logChunkFailures chunkResults rs =
     (case rs of (results, s) \<Rightarrow>
        (results,
         foldl (\<lambda>st r. warn (''Failed to import '' @ (if oname r \<noteq> [] then oname r else ''Unknown'')
                                @ '': '' @ interp (error r)) st)
           s (filter (\<lambda>r. \<not> success r) chunkResults)))"

text \<open>The summary at the end of the batch.\<close>

definition logSummary :: "importer_state \<Rightarrow> importer_state" where
  "logSummary s =
     (if length (failedImports s) > 0
      then foldl (\<lambda>st (nm, err). warn (''  - '' @ interp nm @ '': '' @ err) st)
             (warn (CHR 0x0A # ''Import completed with some failures:'') s) (failedImports s)
      else s)"

text \<open>\<open>importModules\<close>: the keys of the returned object and the state it leaves.\<close>

definition importModules ::
  "env \<Rightarrow> nat \<Rightarrow> string list \<Rightarrow> importer_state \<Rightarrow> (string list \<times> importer_state) option" where
  "importModules e fuel modules s =
     (case forChunks (importOne e fuel) logChunkFailures
             (chunks MAX_CONCURRENT_DOWNLOADS modules) ([], s \<lparr> failedImports := [] \<rparr>) of
        None \<Rightarrow> None
      | Some (outcomes, results, s1) \<Rightarrow> Some (results, logSummary s1))"

section \<open>How a call may change the state\<close>

text \<open>
  The relation between the state before and after a call that the statements below
  rely on: the in-flight set is as before, the request log and the warnings have only
  grown at their ends, and no key has left the failure map or the module registry.
\<close>

definition evolves :: "importer_state \<Rightarrow> importer_state \<Rightarrow> bool" where
  "evolves s s' =
     (importingDependencies s' = importingDependencies s
      \<and> prefix (requests s) (requests s')
      \<and> prefix (warnings s) (warnings s')
      \<and> set (map fst (failedImports s)) \<subseteq> set (map fst (failedImports s'))
      \<and> set (map fst (virtualModules s)) \<subseteq> set (map fst (virtualModules s')))"


section \<open>Example environment\<close>

text \<open>
  A small registry for the concrete instances below. Package \<open>a\<close> (version 1.0.0)
  depends on \<open>b\<close>, and \<open>b\<close> (version 2.0.0) depends on \<open>a\<close>; both are served by the
  CDN with their entry files. Package \<open>broken\<close> is served, but its entry file does not
  compile. Every other URL answers 404.
\<close>

definition example_net :: network where
  "example_net url k =
     (if url = ''https://unpkg.com/a@latest/package.json'' then Http 200 ''OK'' ''manifest a''
      else if url = ''https://unpkg.com/b@1.0.0/package.json'' then Http 200 ''OK'' ''manifest b''
      else if url = ''https://unpkg.com/a@1.0.0/lib/a.js'' then Http 200 ''OK'' ''exports.a = 1''
      else if url = ''https://unpkg.com/b@2.0.0/index.js'' then Http 200 ''OK'' ''exports.b = 2''
      else if url = ''https://unpkg.com/broken@latest/package.json''
      then Http 200 ''OK'' ''manifest broken''
      else if url = ''https://unpkg.com/broken@0.1.0/index.js'' then Http 200 ''OK'' ''exports.c = (''
      else Http 404 ''Not Found'' [])"

definition example_parse :: "string \<Rightarrow> string + manifest" where
  "example_parse body =
     (if body = ''manifest a''
      then Inr \<lparr> pkg_module = None, pkg_main = Some ''lib/a.js'', pkg_version = Some ''1.0.0'',
                 pkg_dependencies = Some [(''b'', ''1.0.0'')] \<rparr>
      else if body = ''manifest b''
      then Inr \<lparr> pkg_module = None, pkg_main = None, pkg_version = Some ''2.0.0'',
                 pkg_dependencies = Some [(''a'', ''^1.0.0'')] \<rparr>
      else if body = ''manifest broken''
      then Inr \<lparr> pkg_module = None, pkg_main = None, pkg_version = Some ''0.1.0'',
                 pkg_dependencies = None \<rparr>
      else Inl ''Unexpected end of JSON input'')"

definition example_env :: env where
  "example_env =
     \<lparr> net = example_net,
       JSON_parse = example_parse,
       compile = (\<lambda>code path. if code = ''exports.c = ('' then Some ''Unexpected token'' else None),
       validRange = (\<lambda>v. v \<noteq> ''next''),
       YARN_REGISTRY = None \<rparr>"



text \<open>The state after importing \<open>a\<close> into the initial state.\<close>

definition manifest_a :: manifest where
  "manifest_a = \<lparr> pkg_module = None, pkg_main = Some ''lib/a.js'', pkg_version = Some ''1.0.0'',
                   pkg_dependencies = Some [(''b'', ''1.0.0'')] \<rparr>"

definition manifest_b :: manifest where
  "manifest_b = \<lparr> pkg_module = None, pkg_main = None, pkg_version = Some ''2.0.0'',
                   pkg_dependencies = Some [(''a'', ''^1.0.0'')] \<rparr>"

definition state_after_a :: importer_state where
  "state_after_a =
     \<lparr> requests = [''https://unpkg.com/a@latest/package.json'',
                    ''https://unpkg.com/b@1.0.0/package.json'',
                    ''https://unpkg.com/b@2.0.0/index.js'',
                    ''https://unpkg.com/a@1.0.0/lib/a.js''],
       waited = 0,
       virtualModules = [(Some ''b'', ''/virtual_modules/b.js''),
                         (Some ''a'', ''/virtual_modules/a.js'')],
       packageMetadataCache = [(''a@latest'', manifest_a), (''b@1.0.0'', manifest_b)],
       importingDependencies = [],
       failedImports = [],
       requireCache = [(''/virtual_modules/b.js'', ''exports.b = 2''),
                       (''/virtual_modules/a.js'', ''exports.a = 1'')],
       warnings = [''Circular dependency detected for a, skipping''] \<rparr>"

section \<open>The specifier parser\<close>

lemma split_not_Nil: "split c s \<noteq> []"
  by (induction s) (auto split: list.splits)







text \<open>
  C3. A scoped specifier \<open>@scope/pkg\<close> or \<open>@scope/pkg@version\<close> should come back with
  the full scoped name in \<open>name\<close>. The source has a branch for it (\<open>alias.startsWith('@')\<close>),
  but \<open>alias\<close> is the text before the first \<open>@\<close> and never starts with one: for both
  forms the parser returns the empty name and puts everything after the leading \<open>@\<close> into
  \<open>version\<close>.
\<close>

theorem parsePackageString_scoped_name_lost:
  "name (parsePackageString ''@scope/pkg'') = []
   \<and> version (parsePackageString ''@scope/pkg'') = ''scope/pkg''
   \<and> name (parsePackageString ''@scope/pkg@1.0.0'') = []
   \<and> version (parsePackageString ''@scope/pkg@1.0.0'') = ''scope/pkg@1.0.0''"
  by (simp add: parsePackageString_def startsWith_def)




section \<open>The registry URL builder\<close>

lemma hexDigit_mem: "n < 16 \<Longrightarrow> hexDigit n \<in> set ''0123456789ABCDEF''"
  unfolding hexDigit_def by (rule nth_mem) simp

lemma hexDigit_not_slash: "n < 16 \<Longrightarrow> hexDigit n \<noteq> CHR ''/''"
  using hexDigit_mem [of n] by auto

lemma of_char_div: "(of_char (c::char) :: nat) div 16 < 16"
proof -
  have "(of_char c :: nat) < 256" by simp
  then show ?thesis by arith
qed

lemma slash_reserved: "\<not> uriUnreserved CHR ''/''"
  by (simp add: uriUnreserved_def)

lemma encodeChar_no_slash: "CHR ''/'' \<notin> set (encodeChar c)"
proof (cases "uriUnreserved c")
  case True
  then have "c \<noteq> CHR ''/''" using slash_reserved by auto
  with True show ?thesis by (simp add: encodeChar_def)
next
  case False
  have "hexDigit (of_char c div 16) \<noteq> CHR ''/''"
    by (rule hexDigit_not_slash) (rule of_char_div)
  moreover have "hexDigit (of_char c mod 16) \<noteq> CHR ''/''"
    by (rule hexDigit_not_slash) simp
  ultimately show ?thesis using False by (simp add: encodeChar_def)
qed

lemma encodeURIComponent_no_slash: "CHR ''/'' \<notin> set (encodeURIComponent s)"
  by (induction s) (simp_all add: encodeURIComponent_def encodeChar_no_slash)

lemma encodeURIComponent_append:
  "encodeURIComponent (a @ b) = encodeURIComponent a @ encodeURIComponent b"
  by (simp add: encodeURIComponent_def)

lemma encodeURIComponent_slash:
  "encodeURIComponent (CHR ''/'' # r) = ''%2F'' @ encodeURIComponent r"
  by (simp add: encodeURIComponent_def encodeChar_def slash_reserved hexDigit_def)

lemma encodedName_scoped:
  "encodedName (''@'' @ scope @ ''/'' @ pkg) =
     ''@'' @ encodeURIComponent scope @ ''%2F'' @ encodeURIComponent pkg"
  using encodeURIComponent_slash
  by (simp add: encodedName_def startsWith_def encodeURIComponent_append)

text \<open>
  C9, as stated: the \<open>/\<close> between scope and package is not percent-encoded. In the URLs
  of \<open>@scope/pkg\<close> it is: both builders print it as \<open>%2F\<close>.
\<close>

theorem scoped_url_slash_encoded:
  "getNpmPackageUrl ''@scope/pkg'' (Some ''1.0.0'') =
     ''https://unpkg.com/@scope%2Fpkg@1.0.0/package.json''
   \<and> getNpmFileUrl ''@scope/pkg'' (Some ''1.0.0'') ''index.js'' =
     ''https://unpkg.com/@scope%2Fpkg@1.0.0/index.js''"
  by (simp add: getNpmPackageUrl_def getNpmFileUrl_def encodedName_def startsWith_def
      encodeURIComponent_def encodeChar_def uriUnreserved_def hexDigit_def)

text \<open>
  C9, amended. For a scoped name \<open>@scope/pkg\<close> both builders keep the leading \<open>@\<close> and
  percent-encode the rest of the name as a whole: scope and package are encoded and the
  \<open>/\<close> between them becomes \<open>%2F\<close>, so the encoded name holds no \<open>/\<close> and is a single
  path segment of the URL.
\<close>

theorem scoped_url_encoding:
  "getNpmPackageUrl (''@'' @ scope @ ''/'' @ pkg) ver =
     ''https://unpkg.com/@'' @ encodeURIComponent scope @ ''%2F'' @ encodeURIComponent pkg
       @ (if truthy ver then ''@'' @ interp ver else []) @ ''/package.json''
   \<and> getNpmFileUrl (''@'' @ scope @ ''/'' @ pkg) ver filePath =
     ''https://unpkg.com/@'' @ encodeURIComponent scope @ ''%2F'' @ encodeURIComponent pkg
       @ (if truthy ver then ''@'' @ interp ver else []) @ ''/'' @ filePath
   \<and> CHR ''/'' \<notin> set (encodedName (''@'' @ scope @ ''/'' @ pkg))"
  unfolding getNpmPackageUrl_def getNpmFileUrl_def encodedName_scoped
  using encodeURIComponent_no_slash by simp

section \<open>The transport client\<close>

lemma attempt_success:
  "nw url (length (requests s)) = Http st m body \<Longrightarrow> st < 400 \<Longrightarrow>
   attempt nw opts url n d s = (Inr body, s \<lparr> requests := requests s @ [url] \<rparr>)"
  by (subst attempt.simps) simp

lemma attempt_retry:
  "failed (nw url (length (requests s))) \<Longrightarrow> n > 1 \<Longrightarrow>
   attempt nw opts url n d s =
     attempt nw opts url (n - 1) (min (d * backoffFactor opts) (maxDelay opts))
       (s \<lparr> requests := requests s @ [url], waited := waited s + d \<rparr>)"
  by (subst attempt.simps) (auto simp: Let_def split: response.splits)

lemma attempt_last:
  "failed (nw url (length (requests s))) \<Longrightarrow> n \<le> 1 \<Longrightarrow>
   attempt nw opts url n d s =
     (Inl (networkErrorOf url (nw url (length (requests s)))),
      s \<lparr> requests := requests s @ [url] \<rparr>)"
  by (subst attempt.simps) (auto simp: Let_def split: response.splits)

lemma not_failed: "\<not> failed r \<Longrightarrow> \<exists>st m b. r = Http st m b \<and> st < 400"
  by (cases r) auto


text \<open>The transport touches nothing but its own two fields, and only adds requests.\<close>

lemma attempt_more: "net_state.more (snd (attempt nw opts url n d s)) = net_state.more s"
proof (induction nw opts url n d s rule: attempt.induct)
  case (1 nw opts url attemptsLeft delay s)
  show ?case
    apply (subst attempt.simps)
    using 1 by (auto simp: Let_def split: response.splits)
qed

lemma attempt_requests:
  "\<exists>rq. requests (snd (attempt nw opts url n d s)) = requests s @ url # rq"
proof (induction n arbitrary: d s rule: less_induct)
  case (less n)
  show ?case
  proof (cases "failed (nw url (length (requests s)))")
    case False
    then obtain st m b where "nw url (length (requests s)) = Http st m b" "st < 400"
      using not_failed by blast
    then show ?thesis by (simp add: attempt_success)
  next
    case True
    show ?thesis
    proof (cases "n > 1")
      case False
      with True show ?thesis by (simp add: attempt_last)
    next
      case n: True
      then have "n - 1 < n" by simp
      from less.IH [OF this] obtain rq where
        "requests (snd (attempt nw opts url (n - 1)
             (min (d * backoffFactor opts) (maxDelay opts))
             (s \<lparr> requests := requests s @ [url], waited := waited s + d \<rparr>)))
         = requests (s \<lparr> requests := requests s @ [url], waited := waited s + d \<rparr>) @ url # rq"
        by blast
      with True n show ?thesis by (simp add: attempt_retry)
    qed
  qed
qed

lemma fetchWithRetry_more:
  "net_state.more (snd (fetchWithRetry nw url opts s)) = net_state.more s"
  by (simp add: fetchWithRetry_def attempt_more)

lemma fetchWithRetry_requests:
  "\<exists>rq. requests (snd (fetchWithRetry nw url opts s)) = requests s @ url # rq"
  by (simp add: fetchWithRetry_def attempt_requests)



section \<open>Running the example environment\<close>

lemma decimal_404: "decimal 404 = ''404''"
  by (simp add: decimal.simps)

lemmas example_run =
  importModules_def importOne_def importFromGitHub_def registryBody_def
  fetchManifest_def importDependency_def logFailedDependencies_def logChunkFailures_def
  logSummary_def importModuleFiles_def fetchJson_def fetchWithRetry_def attempt.simps
  example_env_def example_net_def example_parse_def initial_state_def default_options_def
  manifest_a_def manifest_b_def state_after_a_def
  parsePackageString_def moduleNameOf_def startsWith_def has_def add_def warn_def
  resolveMainFile_def getNpmPackageUrl_def getNpmFileUrl_def getNpmRegistryUrl_def
  registryPath_def getYarnFileUrl_def getYarnPackageUrl_def encodedName_def
  encodeURIComponent_def encodeChar_def uriUnreserved_def hexDigit_def
  MAX_CONCURRENT_DOWNLOADS_def chunks.simps Let_def INITIAL_RETRY_DELAY_def
  MAX_RETRY_DELAY_def BACKOFF_FACTOR_def decimal_404 numeral_3_eq_3 numeral_2_eq_2



section \<open>The module loader\<close>

lemma more_fields:
  fixes s s' :: importer_state
  assumes "net_state.more s' = net_state.more s"
  shows "virtualModules s' = virtualModules s" "requireCache s' = requireCache s"
    "packageMetadataCache s' = packageMetadataCache s"
    "importingDependencies s' = importingDependencies s"
    "failedImports s' = failedImports s" "warnings s' = warnings s"
  using assms by (cases s, cases s', simp)+

lemma importModuleFiles_fail_frame:
  "fst (importModuleFiles e nm u c s) = Inl err \<Longrightarrow>
     net_state.more (snd (importModuleFiles e nm u c s)) = net_state.more s"
  using fetchWithRetry_more [of "net e" u default_options s]
  by (auto simp: importModuleFiles_def Let_def
      split: prod.splits sum.splits option.splits if_splits)

text \<open>
  C10. When compiling the source text throws, \<open>importModuleFiles\<close> throws an error
  \<open>Failed to compile <name>: <message>\<close>, both for a text passed in and for a text it
  fetched; and whenever \<open>importModuleFiles\<close> throws, the virtual module registry and the
  require cache are as they were before the call.
\<close>

theorem importModuleFiles_compile_failure:
  "(compile e code (''/virtual_modules/'' @ interp nm @ ''.js'') = Some m \<longrightarrow>
      importModuleFiles e nm code True s =
        (Inl (Error (''Failed to compile '' @ interp nm @ '': '' @ m)), s))
   \<and> (fst (fetchWithRetry (net e) url default_options s) = Inr code
        \<and> compile e code (''/virtual_modules/'' @ interp nm @ ''.js'') = Some m \<longrightarrow>
      fst (importModuleFiles e nm url False s) =
        Inl (Error (''Failed to compile '' @ interp nm @ '': '' @ m)))
   \<and> (fst (importModuleFiles e nm u c s) = Inl err \<longrightarrow>
        virtualModules (snd (importModuleFiles e nm u c s)) = virtualModules s
        \<and> requireCache (snd (importModuleFiles e nm u c s)) = requireCache s)"
proof (intro conjI impI)
  assume "fst (importModuleFiles e nm u c s) = Inl err"
  then have "net_state.more (snd (importModuleFiles e nm u c s)) = net_state.more s"
    by (rule importModuleFiles_fail_frame)
  then show "virtualModules (snd (importModuleFiles e nm u c s)) = virtualModules s"
    and "requireCache (snd (importModuleFiles e nm u c s)) = requireCache s"
    by (rule more_fields)+
qed (auto simp: importModuleFiles_def Let_def split: prod.splits)

text \<open>The entry file of \<open>broken\<close> in the example registry, as content and as URL.\<close>

theorem importModuleFiles_compile_failure_witness:
  "importModuleFiles example_env (Some ''broken'') ''exports.c = ('' True initial_state =
     (Inl (Error ''Failed to compile broken: Unexpected token''), initial_state)
   \<and> fst (importModuleFiles example_env (Some ''broken'')
             ''https://unpkg.com/broken@0.1.0/index.js'' False initial_state) =
       Inl (Error ''Failed to compile broken: Unexpected token'')
   \<and> virtualModules (snd (importModuleFiles example_env (Some ''broken'')
             ''https://unpkg.com/broken@0.1.0/index.js'' False initial_state)) = []
   \<and> requireCache (snd (importModuleFiles example_env (Some ''broken'')
             ''https://unpkg.com/broken@0.1.0/index.js'' False initial_state)) = []"
proof -
  note inst = importModuleFiles_compile_failure
    [where e = example_env and code = "''exports.c = (''" and nm = "Some ''broken''"
       and m = "''Unexpected token''" and s = initial_state
       and url = "''https://unpkg.com/broken@0.1.0/index.js''"
       and u = "''https://unpkg.com/broken@0.1.0/index.js''" and c = False
       and err = "Error ''Failed to compile broken: Unexpected token''"]
  have c: "compile example_env ''exports.c = ('' (''/virtual_modules/'' @ interp (Some ''broken'') @ ''.js'')
           = Some ''Unexpected token''"
    by (simp add: example_env_def)
  have f: "fst (fetchWithRetry (net example_env) ''https://unpkg.com/broken@0.1.0/index.js''
                  default_options initial_state) = Inr ''exports.c = (''"
    by (simp add: example_run)
  from inst c have 1:
    "importModuleFiles example_env (Some ''broken'') ''exports.c = ('' True initial_state =
       (Inl (Error (''Failed to compile '' @ interp (Some ''broken'') @ '': '' @ ''Unexpected token'')),
        initial_state)"
    by blast
  from inst c f have 2:
    "fst (importModuleFiles example_env (Some ''broken'')
             ''https://unpkg.com/broken@0.1.0/index.js'' False initial_state) =
       Inl (Error (''Failed to compile '' @ interp (Some ''broken'') @ '': '' @ ''Unexpected token''))"
    by blast
  then have two: "fst (importModuleFiles example_env (Some ''broken'')
             ''https://unpkg.com/broken@0.1.0/index.js'' False initial_state) =
       Inl (Error ''Failed to compile broken: Unexpected token'')"
    by simp
  from inst two have 3:
    "virtualModules (snd (importModuleFiles example_env (Some ''broken'')
             ''https://unpkg.com/broken@0.1.0/index.js'' False initial_state))
       = virtualModules initial_state
     \<and> requireCache (snd (importModuleFiles example_env (Some ''broken'')
             ''https://unpkg.com/broken@0.1.0/index.js'' False initial_state))
       = requireCache initial_state"
    by blast
  from 1 two 3 show ?thesis by (simp add: initial_state_def)
qed

section \<open>Every call lets the state evolve\<close>

lemma evolves_refl: "evolves s s"
  by (simp add: evolves_def)

lemma evolves_trans: "evolves a b \<Longrightarrow> evolves b c \<Longrightarrow> evolves a c"
proof -
  assume ab: "evolves a b" and bc: "evolves b c"
  have "prefix (requests a) (requests c)"
    using ab bc unfolding evolves_def by (meson prefix_order.order_trans)
  moreover have "prefix (warnings a) (warnings c)"
    using ab bc unfolding evolves_def by (meson prefix_order.order_trans)
  moreover have "set (map fst (failedImports a)) \<subseteq> set (map fst (failedImports c))"
    using ab bc unfolding evolves_def by (meson subset_trans)
  moreover have "set (map fst (virtualModules a)) \<subseteq> set (map fst (virtualModules c))"
    using ab bc unfolding evolves_def by (meson subset_trans)
  moreover have "importingDependencies c = importingDependencies a"
    using ab bc unfolding evolves_def by simp
  ultimately show ?thesis unfolding evolves_def by simp
qed

lemma evolves_net:
  assumes "net_state.more s' = net_state.more s" "prefix (requests s) (requests s')"
  shows "evolves s s'"
  using assms more_fields[OF assms(1)] by (simp add: evolves_def)

lemma has_iff: "has m k \<longleftrightarrow> k \<in> set (map fst m)"
  by (simp add: has_def map_of_eq_None_iff)

lemma keys_update: "set (map fst m) \<subseteq> set (map fst (AList.update k v m))"
  by (auto simp: AList.update_keys)

lemma has_update: "has (AList.update k v m) k' \<longleftrightarrow> k' = k \<or> has m k'"
  by (simp add: has_def update_conv')

lemma evolves_cache: "evolves s (s \<lparr> packageMetadataCache := c \<rparr>)"
  by (simp add: evolves_def)

lemma evolves_warn: "evolves s (warn m s)"
  by (simp add: evolves_def warn_def)

lemma evolves_failed: "evolves s (s \<lparr> failedImports := AList.update k v (failedImports s) \<rparr>)"
  using keys_update by (simp add: evolves_def)

lemma evolves_register:
  "evolves s (s \<lparr> virtualModules := AList.update k v (virtualModules s), requireCache := rc \<rparr>)"
  using keys_update by (simp add: evolves_def)

lemma evolves_has:
  "evolves s s' \<Longrightarrow> has (virtualModules s) k \<Longrightarrow> has (virtualModules s') k"
  unfolding evolves_def has_iff by blast



lemma fetchWithRetry_evolves: "evolves s (snd (fetchWithRetry nw url opts s))"
  using fetchWithRetry_more[of nw url opts s] fetchWithRetry_requests[of nw url opts s]
  by (auto intro!: evolves_net)

lemma fetchJson_snd: "snd (fetchJson nw parse url opts s) = snd (fetchWithRetry nw url opts s)"
  by (simp add: fetchJson_def split: prod.splits sum.splits)

lemma fetchJson_evolves: "evolves s (snd (fetchJson nw parse url opts s))"
  by (simp add: fetchJson_snd fetchWithRetry_evolves)

lemma fetchJson_evolvesD: "fetchJson nw parse url opts s = (r, s1) \<Longrightarrow> evolves s s1"
  using fetchJson_evolves[of s nw parse url opts] by simp

lemma fetchWithRetry_evolvesD: "fetchWithRetry nw url opts s = (r, s1) \<Longrightarrow> evolves s s1"
  using fetchWithRetry_evolves[of s nw url opts] by simp

lemma evolves_then_cache: "evolves s s1 \<Longrightarrow> evolves s (s1 \<lparr> packageMetadataCache := c \<rparr>)"
  using evolves_trans evolves_cache by blast

lemma fetchManifest_evolves: "evolves s (snd (fetchManifest e nm ver src s))"
  unfolding fetchManifest_def Let_def
  by (auto simp: evolves_refl split: option.splits prod.splits sum.splits
      dest!: fetchJson_evolvesD intro: evolves_then_cache evolves_trans)

lemma importModuleFiles_evolves: "evolves s (snd (importModuleFiles e nm u c s))"
  unfolding importModuleFiles_def Let_def
  by (auto simp: evolves_refl split: option.splits prod.splits sum.splits if_splits
      dest!: fetchWithRetry_evolvesD intro: evolves_trans[OF _ evolves_register])

lemma foldl_warn_evolves:
  "evolves s (foldl (\<lambda>st x. warn (g x) st) s xs)"
proof (induction xs arbitrary: s)
  case Nil
  show ?case by (simp add: evolves_refl)
next
  case (Cons x xs)
  have "evolves s (warn (g x) s)" by (rule evolves_warn)
  moreover have "evolves (warn (g x) s) (foldl (\<lambda>st x. warn (g x) st) (warn (g x) s) xs)"
    by (rule Cons.IH)
  ultimately have "evolves s (foldl (\<lambda>st x. warn (g x) st) (warn (g x) s) xs)"
    by (rule evolves_trans)
  then show ?case by simp
qed

lemma logFailedDependencies_evolves: "evolves s (logFailedDependencies nm rs s)"
  unfolding logFailedDependencies_def Let_def
  by (auto simp: evolves_refl intro: evolves_trans [OF evolves_warn foldl_warn_evolves])




lemma allSettled_rel:
  assumes step: "\<And>x s r s'. x \<in> set xs \<Longrightarrow> f x s = Some (r, s') \<Longrightarrow> R s s'"
    and refl: "\<And>s. R s s"
    and trans: "\<And>a b c. R a b \<Longrightarrow> R b c \<Longrightarrow> R a c"
    and run: "allSettled f xs s = Some (rs, s')"
  shows "R s s'"
  using step run
proof (induction xs arbitrary: s rs)
  case Nil
  then show ?case using refl by simp
next
  case (Cons x xs)
  from Cons.prems(2) obtain r s1 rs1 where
    1: "f x s = Some (r, s1)" and 2: "allSettled f xs s1 = Some (rs1, s')"
    by (auto split: option.splits prod.splits)
  have "R s s1" by (rule Cons.prems(1) [OF _ 1]) simp
  moreover have "R s1 s'"
  proof (rule Cons.IH [OF _ 2])
    fix y t r t' assume "y \<in> set xs" "f y t = Some (r, t')"
    then show "R t t'" using Cons.prems(1) [of y t r t'] by simp
  qed
  ultimately show ?case using trans by blast
qed

lemma forChunks_rel:
  assumes step: "\<And>x s r s'. x \<in> set (concat cs) \<Longrightarrow> f x s = Some (r, s') \<Longrightarrow> R s s'"
    and after: "\<And>rs s. R s (after rs s)"
    and refl: "\<And>s. R s s"
    and trans: "\<And>a b c. R a b \<Longrightarrow> R b c \<Longrightarrow> R a c"
    and run: "forChunks f after cs s = Some (rs, s')"
  shows "R s s'"
  using step run
proof (induction cs arbitrary: s rs)
  case Nil
  then show ?case using refl by simp
next
  case (Cons c cs)
  from Cons.prems(2) obtain r1 s1 rs1 where
    1: "allSettled f c s = Some (r1, s1)"
    and 2: "forChunks f after cs (after r1 s1) = Some (rs1, s')"
    by (auto split: option.splits prod.splits)
  have "R s s1"
  proof (rule allSettled_rel [of c f R, OF _ refl trans 1])
    fix y t r t' assume "y \<in> set c" "f y t = Some (r, t')"
    then show "R t t'" using Cons.prems(1) [of y t r t'] by simp
  qed
  moreover have "R s1 (after r1 s1)" by (rule after)
  moreover have "R (after r1 s1) s'"
  proof (rule Cons.IH [OF _ 2])
    fix y t r t' assume "y \<in> set (concat cs)" "f y t = Some (r, t')"
    then show "R t t'" using Cons.prems(1) [of y t r t'] by simp
  qed
  ultimately show ?case using trans by blast
qed

lemma evolves_warn_failed:
  "evolves s ((warn m s) \<lparr> failedImports := AList.update k v (failedImports s) \<rparr>)"
  using keys_update [of "failedImports s" k v] by (simp add: evolves_def warn_def)

lemma importDependency_evolves:
  assumes rec: "\<And>p src' st r st'. rec p src' st = Some (r, st') \<Longrightarrow> evolves st st'"
    and run: "importDependency e rec src dep s = Some (out, s')"
  shows "evolves s s'"
proof -
  obtain depName depVersion where dep: "dep = (depName, depVersion)" by (cases dep)
  let ?p = "depName @ ''@'' @ (if validRange e depVersion then depVersion else ''latest'')"
  from run dep obtain r s1 where 1: "rec ?p src s = Some (r, s1)"
    by (auto simp: importDependency_def Let_def split: option.splits)
  have e1: "evolves s s1" using rec 1 by blast
  show ?thesis
  proof (cases r)
    case (Inr u)
    with run dep 1 have "s' = s1" by (simp add: importDependency_def Let_def)
    with e1 show ?thesis by simp
  next
    case (Inl err)
    with run dep 1 have
      "s' = (warn (''Failed to import dependency '' @ depName @ '': '' @ message err) s1)
              \<lparr> failedImports := AList.update (Some depName) (message err) (failedImports s1) \<rparr>"
      by (simp add: importDependency_def Let_def)
    then show ?thesis
      using evolves_trans [OF e1 evolves_warn_failed] by simp
  qed
qed

lemma registryBody_after_manifest:
  assumes rec: "\<And>p src' st r st'. rec p src' st = Some (r, st') \<Longrightarrow> evolves st st'"
    and run: "registryBody e rec nm ver src s = Some (r, s')"
  shows "evolves (snd (fetchManifest e nm ver src s)) s'"
proof (cases "fetchManifest e nm ver src s")
  case (Pair m s1)
  show ?thesis
  proof (cases m)
    case (Inl err)
    with Pair run show ?thesis by (simp add: registryBody_def evolves_refl)
  next
    case (Inr pkgJson)
    let ?deps = "case pkg_dependencies pkgJson of None \<Rightarrow> [] | Some d \<Rightarrow> d"
    from run Pair Inr obtain results s2 where
      2: "forChunks (importDependency e rec src) (\<lambda>rs st. st)
            (chunks MAX_CONCURRENT_DOWNLOADS ?deps) s1 = Some (results, s2)"
      by (auto simp: registryBody_def Let_def split: option.splits)
    have e2: "evolves s1 s2"
      by (rule forChunks_rel [where R = evolves, OF _ _ evolves_refl evolves_trans 2])
        (auto intro: importDependency_evolves [OF rec] evolves_refl)
    let ?url = "if src = ''yarn''
                then getYarnFileUrl nm (pkg_version pkgJson) (resolveMainFile pkgJson)
                else getNpmFileUrl nm (pkg_version pkgJson) (resolveMainFile pkgJson)"
    have e3: "evolves s2 (snd (importModuleFiles e (Some nm) ?url False s2))"
      by (rule importModuleFiles_evolves)
    have "s' = snd (importModuleFiles e (Some nm) ?url False s2)
          \<or> s' = logFailedDependencies nm results (snd (importModuleFiles e (Some nm) ?url False s2))"
      using run Pair Inr 2
      by (auto simp: registryBody_def Let_def split: prod.splits sum.splits)
    then have "evolves s2 s'"
    proof
      assume "s' = snd (importModuleFiles e (Some nm) ?url False s2)"
      with e3 show ?thesis by simp
    next
      assume "s' = logFailedDependencies nm results
                    (snd (importModuleFiles e (Some nm) ?url False s2))"
      with evolves_trans [OF e3 logFailedDependencies_evolves] show ?thesis by simp
    qed
    with e2 have "evolves s1 s'" by (rule evolves_trans)
    with Pair show ?thesis by simp
  qed
qed

lemma registryBody_evolves:
  assumes rec: "\<And>p src' st r st'. rec p src' st = Some (r, st') \<Longrightarrow> evolves st st'"
    and run: "registryBody e rec nm ver src s = Some (r, s')"
  shows "evolves s s'"
proof -
  have "evolves (snd (fetchManifest e nm ver src s)) s'"
    by (rule registryBody_after_manifest [OF _ run]) (rule rec)
  with fetchManifest_evolves [of s e nm ver src] show ?thesis
    by (rule evolves_trans)
qed

lemma removeAll_add: "x \<notin> set xs \<Longrightarrow> removeAll x (add x xs) = xs"
  by (simp add: add_def)

lemma evolves_leave:
  assumes "nm \<notin> set (importingDependencies s)"
    and "evolves (s \<lparr> importingDependencies := add nm (importingDependencies s) \<rparr>) s1"
  shows "evolves s (s1 \<lparr> importingDependencies := removeAll nm (importingDependencies s1) \<rparr>)"
    and "evolves s (s1 \<lparr> failedImports := AList.update k v (failedImports s1),
                        importingDependencies := removeAll nm (importingDependencies s1) \<rparr>)"
proof -
  let ?s2 = "s1 \<lparr> importingDependencies := removeAll nm (importingDependencies s1) \<rparr>"
  show 1: "evolves s ?s2"
    using assms by (auto simp: evolves_def removeAll_add)
  have "evolves ?s2 (?s2 \<lparr> failedImports := AList.update k v (failedImports ?s2) \<rparr>)"
    by (rule evolves_failed)
  with 1 have "evolves s (?s2 \<lparr> failedImports := AList.update k v (failedImports ?s2) \<rparr>)"
    by (rule evolves_trans)
  then show "evolves s (s1 \<lparr> failedImports := AList.update k v (failedImports s1),
                        importingDependencies := removeAll nm (importingDependencies s1) \<rparr>)"
    by (simp add: evolves_def)
qed

lemma importFromRegistry_evolves:
  "importFromRegistry e fuel pkg src s = Some (r, s') \<Longrightarrow> evolves s s'"
proof (induction fuel arbitrary: pkg src s r s')
  case 0
  then show ?case by simp
next
  case (Suc fuel)
  let ?nm = "name (parsePackageString pkg)"
  let ?ver = "version (parsePackageString pkg)"
  show ?case
  proof (cases "has (virtualModules s) (Some ?nm)")
    case True
    with Suc.prems show ?thesis by (simp add: evolves_refl Let_def)
  next
    case notLoaded: False
    show ?thesis
    proof (cases "?nm \<in> set (importingDependencies s)")
      case True
      with notLoaded Suc.prems show ?thesis by (auto simp: Let_def evolves_warn)
    next
      case False
      let ?s0 = "s \<lparr> importingDependencies := add ?nm (importingDependencies s) \<rparr>"
      from Suc.prems notLoaded False obtain r1 s1 where
        1: "registryBody e (importFromRegistry e fuel) ?nm ?ver src ?s0 = Some (r1, s1)"
        by (auto simp: Let_def split: option.splits)
      have "evolves ?s0 s1"
        by (rule registryBody_evolves [OF _ 1]) (rule Suc.IH)
      note ev = evolves_leave [OF False this]
      show ?thesis
      proof (cases r1)
        case (Inl err)
        with Suc.prems notLoaded False 1 ev(2) show ?thesis by (auto simp: Let_def)
      next
        case (Inr u)
        with Suc.prems notLoaded False 1 ev(1) show ?thesis by (auto simp: Let_def)
      qed
    qed
  qed
qed



section \<open>Importing a specifier twice\<close>

lemma importFromRegistry_loaded:
  "has (virtualModules s) (Some (name (parsePackageString pkg))) \<Longrightarrow>
     importFromRegistry e (Suc fuel) pkg src s = Some (Inr (), s)"
  by (simp add: Let_def)


lemma importFromRegistry_fresh:
  "\<not> has (virtualModules s) (Some (name (parsePackageString pkg))) \<Longrightarrow>
   name (parsePackageString pkg) \<notin> set (importingDependencies s) \<Longrightarrow>
     importFromRegistry e (Suc fuel) pkg src s =
       (case registryBody e (importFromRegistry e fuel) (name (parsePackageString pkg))
               (version (parsePackageString pkg)) src
               (s \<lparr> importingDependencies :=
                     add (name (parsePackageString pkg)) (importingDependencies s) \<rparr>) of
          None \<Rightarrow> None
        | Some (Inl err, s1) \<Rightarrow>
            Some (Inl err,
                  s1 \<lparr> failedImports := AList.update (Some (name (parsePackageString pkg)))
                                            (message err) (failedImports s1),
                       importingDependencies :=
                         removeAll (name (parsePackageString pkg)) (importingDependencies s1) \<rparr>)
        | Some (Inr u, s1) \<Rightarrow>
            Some (Inr (),
                  s1 \<lparr> importingDependencies :=
                         removeAll (name (parsePackageString pkg)) (importingDependencies s1) \<rparr>))"
  by (simp add: Let_def)

lemma importModuleFiles_success_registers:
  "importModuleFiles e nm u c s = (Inr x, s') \<Longrightarrow> has (virtualModules s') nm"
  by (auto simp: importModuleFiles_def Let_def has_update
      split: prod.splits sum.splits option.splits if_splits)

lemma registryBody_success_registers:
  assumes "registryBody e rec nm ver src s = Some (Inr u, s')"
  shows "has (virtualModules s') (Some nm)"
proof -
  from assms obtain url s2 s3 results x where
    1: "importModuleFiles e (Some nm) url False s2 = (Inr x, s3)"
    and 2: "s' = logFailedDependencies nm results s3"
    by (auto simp: registryBody_def Let_def split: prod.splits sum.splits option.splits)
  from 1 have "has (virtualModules s3) (Some nm)"
    by (rule importModuleFiles_success_registers)
  with logFailedDependencies_evolves [of s3 nm results] 2 show ?thesis
    using evolves_has by blast
qed

lemma import_success_registers:
  assumes run: "importFromRegistry e fuel pkg src s = Some (Inr (), s')"
    and free: "name (parsePackageString pkg) \<notin> set (importingDependencies s)"
  shows "has (virtualModules s') (Some (name (parsePackageString pkg)))"
proof (cases fuel)
  case 0
  with run show ?thesis by simp
next
  case (Suc n)
  let ?nm = "name (parsePackageString pkg)"
  show ?thesis
  proof (cases "has (virtualModules s) (Some ?nm)")
    case True
    with run Suc show ?thesis by (simp add: importFromRegistry_loaded)
  next
    case False
    from run Suc have "importFromRegistry e (Suc n) pkg src s = Some (Inr (), s')" by simp
    from this [unfolded importFromRegistry_fresh [OF False free] ] obtain u s1 where
      1: "registryBody e (importFromRegistry e n) ?nm (version (parsePackageString pkg)) src
            (s \<lparr> importingDependencies := add ?nm (importingDependencies s) \<rparr>) = Some (Inr u, s1)"
      and 2: "s' = s1 \<lparr> importingDependencies := removeAll ?nm (importingDependencies s1) \<rparr>"
      by (auto split: option.splits prod.splits sum.splits)
    from registryBody_success_registers [OF 1] 2 show ?thesis by simp
  qed
qed




section \<open>Dependency cycles\<close>












section \<open>Clearing the caches\<close>

lemma map_of_foldl_delete:
  "map_of (foldl (\<lambda>rc (nm, path). AList.delete path rc) rc vm) p =
     (if p \<in> snd ` set vm then None else map_of rc p)"
proof (induction vm arbitrary: rc)
  case Nil
  show ?case by simp
next
  case (Cons x vm)
  obtain nm path where x: "x = (nm, path)" by (cases x)
  show ?case
    unfolding x using Cons.IH [of "AList.delete path rc"]
    by (auto simp: delete_conv')
qed

lemma fetchManifest_cold_requests:
  assumes "map_of (packageMetadataCache s) (nm @ ''@'' @ ver) = None"
  shows "\<exists>rq. requests (snd (fetchManifest e nm ver src s)) =
           requests s @ (if src = ''yarn'' then getYarnPackageUrl (YARN_REGISTRY e) nm (Some ver)
                         else getNpmPackageUrl nm (Some ver)) # rq"
proof -
  let ?url = "if src = ''yarn'' then getYarnPackageUrl (YARN_REGISTRY e) nm (Some ver)
              else getNpmPackageUrl nm (Some ver)"
  let ?s1 = "snd (fetchJson (net e) (JSON_parse e) ?url default_options s)"
  from fetchWithRetry_requests [of "net e" ?url default_options s]
  obtain rq where 1: "requests ?s1 = requests s @ ?url # rq"
    by (auto simp: fetchJson_snd)
  let ?s2 = "snd (fetchJson (net e) (JSON_parse e) (getNpmRegistryUrl nm (Some ver))
                    default_options ?s1)"
  from fetchWithRetry_requests
    [of "net e" "getNpmRegistryUrl nm (Some ver)" default_options ?s1]
  obtain rq' where 2: "requests ?s2 = requests ?s1 @ getNpmRegistryUrl nm (Some ver) # rq'"
    by (auto simp: fetchJson_snd)
  have "requests (snd (fetchManifest e nm ver src s)) = requests ?s1
        \<or> requests (snd (fetchManifest e nm ver src s)) = requests ?s2"
    using assms
    by (auto simp: fetchManifest_def Let_def split: prod.splits sum.splits)
  with 1 2 show ?thesis by auto
qed

lemma import_after_empty_cache:
  assumes nm: "nm = name (parsePackageString pkg)" "ver = version (parsePackageString pkg)"
    and fresh: "\<not> has (virtualModules s) (Some nm)" "nm \<notin> set (importingDependencies s)"
    and cold: "map_of (packageMetadataCache s) (nm @ ''@'' @ ver) = None"
    and run: "importFromRegistry e fuel pkg src s = Some (r, s')"
  shows "prefix (requests s @ [if src = ''yarn''
                               then getYarnPackageUrl (YARN_REGISTRY e) nm (Some ver)
                               else getNpmPackageUrl nm (Some ver)]) (requests s')"
proof (cases fuel)
  case 0
  with run show ?thesis by simp
next
  case (Suc n)
  let ?url = "if src = ''yarn'' then getYarnPackageUrl (YARN_REGISTRY e) nm (Some ver)
              else getNpmPackageUrl nm (Some ver)"
  let ?s0 = "s \<lparr> importingDependencies := add nm (importingDependencies s) \<rparr>"
  from run Suc have "importFromRegistry e (Suc n) pkg src s = Some (r, s')" by simp
  from this [unfolded importFromRegistry_fresh [OF fresh [unfolded nm], folded nm] ]
  obtain r1 s1 where
    body: "registryBody e (importFromRegistry e n) nm ver src ?s0 = Some (r1, s1)"
    and req: "requests s' = requests s1"
    by (auto split: option.splits prod.splits sum.splits)
  have "evolves (snd (fetchManifest e nm ver src ?s0)) s1"
    by (rule registryBody_after_manifest [OF _ body]) (rule importFromRegistry_evolves)
  then have p: "prefix (requests (snd (fetchManifest e nm ver src ?s0))) (requests s1)"
    by (simp add: evolves_def)
  from cold have "map_of (packageMetadataCache ?s0) (nm @ ''@'' @ ver) = None" by simp
  from fetchManifest_cold_requests [OF this, of e src]
  obtain rq where "requests (snd (fetchManifest e nm ver src ?s0)) = requests s @ ?url # rq"
    by auto
  with p have "prefix (requests s @ ?url # rq) (requests s1)" by simp
  then have "prefix (requests s @ [?url]) (requests s1)"
    by (metis append_Cons append_Nil append_assoc append_prefixD)
  with req show ?thesis by simp
qed

text \<open>
  C8, as stated: the clear operation empties the in-flight resolution set. It does not
  touch it: a name that is in flight when \<open>clearVirtualModules\<close> runs is in flight after.
\<close>

theorem clear_keeps_in_flight:
  "importingDependencies
     (clearVirtualModules (initial_state \<lparr> importingDependencies := [''a''] \<rparr>)) = [''a'']"
  by (simp add: clearVirtualModules_def initial_state_def)

text \<open>
  C8, amended. \<open>clearVirtualModules\<close> empties the virtual module registry, the manifest
  cache and the record of failed imports, and removes from the require cache every path
  the registry held; it leaves the in-flight set and the request log as they are. After
  it, an import of a registry specifier whose name is not in flight requests the manifest
  anew, as its first request, and when the import succeeds the name is registered again.
\<close>

theorem clear_then_reimport:
  "virtualModules (clearVirtualModules s) = []
   \<and> packageMetadataCache (clearVirtualModules s) = []
   \<and> failedImports (clearVirtualModules s) = []
   \<and> importingDependencies (clearVirtualModules s) = importingDependencies s
   \<and> requests (clearVirtualModules s) = requests s
   \<and> (\<forall>p \<in> snd ` set (virtualModules s). map_of (requireCache (clearVirtualModules s)) p = None)
   \<and> (name (parsePackageString pkg) \<notin> set (importingDependencies s)
        \<and> importFromRegistry e fuel pkg src (clearVirtualModules s) = Some (r, s')
      \<longrightarrow> prefix (requests s @
                   [if src = ''yarn''
                    then getYarnPackageUrl (YARN_REGISTRY e) (name (parsePackageString pkg))
                           (Some (version (parsePackageString pkg)))
                    else getNpmPackageUrl (name (parsePackageString pkg))
                           (Some (version (parsePackageString pkg)))])
            (requests s')
          \<and> (r = Inr () \<longrightarrow> has (virtualModules s') (Some (name (parsePackageString pkg)))))"
proof (intro conjI ballI impI)
  fix p assume "p \<in> snd ` set (virtualModules s)"
  then show "map_of (requireCache (clearVirtualModules s)) p = None"
    by (simp add: clearVirtualModules_def map_of_foldl_delete)
next
  assume a: "name (parsePackageString pkg) \<notin> set (importingDependencies s)
        \<and> importFromRegistry e fuel pkg src (clearVirtualModules s) = Some (r, s')"
  let ?c = "clearVirtualModules s"
  have c: "\<not> has (virtualModules ?c) (Some (name (parsePackageString pkg)))"
    "name (parsePackageString pkg) \<notin> set (importingDependencies ?c)"
    "map_of (packageMetadataCache ?c)
       (name (parsePackageString pkg) @ ''@'' @ version (parsePackageString pkg)) = None"
    using a by (simp_all add: clearVirtualModules_def has_def)
  from a have run: "importFromRegistry e fuel pkg src ?c = Some (r, s')" by simp
  from import_after_empty_cache [OF refl refl c run]
  show "prefix (requests s @
                   [if src = ''yarn''
                    then getYarnPackageUrl (YARN_REGISTRY e) (name (parsePackageString pkg))
                           (Some (version (parsePackageString pkg)))
                    else getNpmPackageUrl (name (parsePackageString pkg))
                           (Some (version (parsePackageString pkg)))])
            (requests s')"
    by (simp add: clearVirtualModules_def)
  show "has (virtualModules s') (Some (name (parsePackageString pkg)))" if "r = Inr ()"
    using import_success_registers [of e fuel pkg src ?c s'] run that c(2) by simp
qed (simp_all add: clearVirtualModules_def)

text \<open>Clearing after \<open>a\<close> was imported, and importing it again.\<close>

theorem clear_then_reimport_witness:
  "virtualModules (clearVirtualModules state_after_a) = []
   \<and> requireCache (clearVirtualModules state_after_a) = []
   \<and> (case importFromRegistry example_env 3 ''a'' ''npm'' (clearVirtualModules state_after_a) of
         None \<Rightarrow> False
       | Some (r, s') \<Rightarrow>
           r = Inr ()
           \<and> prefix (requests state_after_a @ [''https://unpkg.com/a@latest/package.json''])
                (requests s')
           \<and> has (virtualModules s') (Some ''a''))"
proof -
  obtain r s' where
    run: "importFromRegistry example_env 3 ''a'' ''npm'' (clearVirtualModules state_after_a)
          = Some (r, s')" and r: "r = Inr ()"
    by (simp add: example_run clearVirtualModules_def)
  note inst = clear_then_reimport
    [where s = state_after_a and pkg = "''a''" and e = example_env and fuel = 3
       and src = "''npm''" and r = r and s' = s']
  have free: "name (parsePackageString ''a'') \<notin> set (importingDependencies state_after_a)"
    by (simp add: example_run)
  from inst free run r have
    "prefix (requests state_after_a @
               [if ''npm'' = ''yarn''
                then getYarnPackageUrl (YARN_REGISTRY example_env) (name (parsePackageString ''a''))
                       (Some (version (parsePackageString ''a'')))
                else getNpmPackageUrl (name (parsePackageString ''a''))
                       (Some (version (parsePackageString ''a'')))])
        (requests s')
     \<and> has (virtualModules s') (Some (name (parsePackageString ''a'')))"
    by blast
  then have "prefix (requests state_after_a @ [''https://unpkg.com/a@latest/package.json''])
                (requests s')
             \<and> has (virtualModules s') (Some ''a'')"
    by (simp add: example_run)
  moreover have "virtualModules (clearVirtualModules state_after_a) = []
                 \<and> requireCache (clearVirtualModules state_after_a) = []"
    by (simp add: clearVirtualModules_def state_after_a_def)
  ultimately show ?thesis using run r by simp
qed

section \<open>Batches\<close>













text \<open>
  C1. The batch should return a report with the failures and their messages. For a
  batch of one specifier that the registry does not know, the returned object has no
  key at all: the failure and its message are only in the module's private
  \<open>failedImports\<close> map and in the log.
\<close>

theorem importModules_report_omits_failures:
  "(case importModules example_env 1 [''nope''] initial_state of
      None \<Rightarrow> False
    | Some (res, s') \<Rightarrow>
        res = [] \<and> failedImports s' = [(Some ''nope'', ''HTTP 404 - Not Found'')])"
  by (simp add: example_run)

end
